theory Spec2Isabelle
  imports Complex_Main
begin

section \<open>Inspection of a compiled SpiderMonkey shell (\<open>funfuzz/js/inspect_shell.py\<close>)\<close>

text \<open>
  The module runs external processes (the \<open>file\<close> utility and the shell under test),
  reads their decoded standard output and exit code, and raises Python exceptions.
  The embedding makes all of this explicit:
  \<^item> an exception is the \<open>Inl\<close> branch of a sum, a normal return the \<open>Inr\<close> branch;
  \<^item> the operating system is a parameter \<open>os\<close> that answers every invocation, and may
    answer differently depending on the invocations made before;
  \<^item> the state records every call of \<open>subprocess.run\<close> in order, together with the
    compiled-shell object whose build options \<open>verifyBinary\<close> reads;
  \<^item> text is a HOL string, one \<open>char\<close> per code point below 256.
  The log lines written through \<open>FUNFUZZ_LOG\<close> and the working directory passed to
  \<open>subprocess.run\<close> are not part of the model. Python assertions are taken as enabled
  (the interpreter is not run with \<open>-O\<close>).
\<close>

subsection \<open>Data\<close>

datatype py_error =
    TimeoutExpired
  | OSError
  | IndexError
  | AssertionError
  | JSONDecodeError
  | Exception string

text \<open>A \<open>pathlib\<close> path, through the two observations the module makes of it:
  \<open>str(p)\<close> and \<open>str(p.parent)\<close>.\<close>

record path =
  path_str :: string
  parent_str :: string

text \<open>\<open>sh.build_opts\<close>: the declared build options.\<close>

record build_options =
  enable32 :: bool
  enableDbg :: bool
  enableMoreDeterministic :: bool
  buildWithAsan :: bool
  enableSimulatorArm32 :: bool
  enableSimulatorArm64 :: bool

text \<open>The compiled-shell object \<open>sh\<close>. Its class is defined outside this module;
  \<open>sh.get_shell_cache_js_bin_path()\<close> is taken to return a stored path.\<close>

record shell =
  build_opts :: build_options
  shell_cache_js_bin_path :: path

text \<open>One call of \<open>subprocess.run\<close>: the command, the directory handed to
  \<open>env_with_path\<close> (\<open>None\<close> when the environment is inherited), what happens to the
  child's standard error, and the timeout in seconds.\<close>

datatype stderr_mode = Inherited | STDOUT | DEVNULL

record invocation =
  cmd :: "string list"
  env_dir :: "string option"
  stderr :: stderr_mode
  timeout :: nat

text \<open>What a started process does: it cannot be started, it never ends, or it ends
  after some seconds with a decoded standard output and a return code.\<close>

datatype proc = CannotStart | Hangs | Finishes nat string int

type_synonym opsys = "invocation list \<Rightarrow> invocation \<Rightarrow> proc"

record state =
  sh_obj :: shell
  invocations :: "invocation list"

type_synonym 'a py = "state \<Rightarrow> (py_error + 'a) \<times> state"

definition py_return :: "'a \<Rightarrow> 'a py" where
  "py_return x s = (Inr x, s)"

definition py_raise :: "py_error \<Rightarrow> 'a py" where
  "py_raise e s = (Inl e, s)"

definition py_bind :: "'a py \<Rightarrow> ('a \<Rightarrow> 'b py) \<Rightarrow> 'b py" where
  "py_bind m f s = (case m s of (Inl e, s') \<Rightarrow> (Inl e, s') | (Inr x, s') \<Rightarrow> f x s')"

definition py_assert :: "bool \<Rightarrow> unit py" where
  "py_assert b = (if b then py_return () else py_raise AssertionError)"

subsection \<open>Python's built-in operations on text and lists\<close>

text \<open>\<open>str(n)\<close> for an integer.\<close>

fun str_nat :: "nat \<Rightarrow> string" where
  "str_nat n =
     (if n < 10 then [''0123456789'' ! n]
      else str_nat (n div 10) @ [''0123456789'' ! (n mod 10)])"

declare str_nat.simps [simp del]

definition py_str :: "int \<Rightarrow> string" where
  "py_str i = (if i < 0 then CHR ''-'' # str_nat (nat (- i)) else str_nat (nat i))"

text \<open>Reading a decimal numeral back; used to show that \<open>str\<close> loses nothing.\<close>

definition digits_val :: "string \<Rightarrow> nat" where
  "digits_val cs = foldl (\<lambda>a c. 10 * a + (of_char c - 48)) 0 cs"

text \<open>\<open>s.startswith(p)\<close> and \<open>sub in s\<close>.\<close>

fun startswith :: "string \<Rightarrow> string \<Rightarrow> bool" where
  "startswith s [] = True"
| "startswith [] (p # ps) = False"
| "startswith (c # cs) (p # ps) = (c = p \<and> startswith cs ps)"

fun py_in :: "string \<Rightarrow> string \<Rightarrow> bool" where
  "py_in sub [] = (sub = [])"
| "py_in sub (c # cs) = (startswith (c # cs) sub \<or> py_in sub cs)"

text \<open>\<open>s.split(sep, 1)\<close> for a one-character separator, and \<open>xs[i]\<close> for \<open>i \<ge> 0\<close>.\<close>

definition py_split1 :: "char \<Rightarrow> string \<Rightarrow> string list" where
  "py_split1 sep s =
     (if sep \<in> set s
      then [takeWhile (\<lambda>c. c \<noteq> sep) s, tl (dropWhile (\<lambda>c. c \<noteq> sep) s)]
      else [s])"

definition py_index :: "'a list \<Rightarrow> nat \<Rightarrow> 'a py" where
  "py_index xs i = (if i < length xs then py_return (xs ! i) else py_raise IndexError)"

subsection \<open>Running a process\<close>

text \<open>\<open>subprocess.run(..., stdout=PIPE, timeout=t)\<close> followed by
  \<open>.stdout.decode("utf-8", errors="replace")\<close>, which never raises. The call is recorded
  whatever its outcome.\<close>

definition subprocess_run :: "opsys \<Rightarrow> invocation \<Rightarrow> (string \<times> int) py" where
  "subprocess_run os call s =
     (let s' = s\<lparr>invocations := invocations s @ [call]\<rparr> in
      case os (invocations s) call of
        CannotStart \<Rightarrow> (Inl OSError, s')
      | Hangs \<Rightarrow> (Inl TimeoutExpired, s')
      | Finishes secs out rc \<Rightarrow>
          if timeout call < secs then (Inl TimeoutExpired, s') else (Inr (out, rc), s'))"

definition constructVgCmdList :: "string \<Rightarrow> int \<Rightarrow> string list" where
  "constructVgCmdList system errorCode =
     [''valgrind''] @
     (if system = ''Darwin'' then [''--dsymutil=yes''] else []) @
     [''--error-exitcode='' @ py_str errorCode,
      ''--vex-iropt-register-updates=allregs-at-mem-access'',
      ''--gen-suppressions=all'',
      ''--leak-check=full'',
      ''--errors-for-leak-kinds=definite'',
      ''--show-leak-kinds=definite'',
      ''--show-possibly-lost=no'',
      ''--num-callers=50'']"

definition test_cmd :: "string \<Rightarrow> path \<Rightarrow> string list \<Rightarrow> bool \<Rightarrow> string list" where
  "test_cmd system shellPath args useValgrind =
     (if useValgrind then constructVgCmdList system 77 else []) @ [path_str shellPath] @ args"

definition test_invocation ::
  "string \<Rightarrow> path \<Rightarrow> string list \<Rightarrow> bool \<Rightarrow> stderr_mode \<Rightarrow> invocation" where
  "test_invocation system shellPath args useValgrind err =
     \<lparr>cmd = test_cmd system shellPath args useValgrind,
      env_dir = Some (parent_str shellPath),
      stderr = err,
      timeout = 999\<rparr>"

definition testBinary ::
  "opsys \<Rightarrow> string \<Rightarrow> path \<Rightarrow> string list \<Rightarrow> bool \<Rightarrow> stderr_mode \<Rightarrow> (string \<times> int) py" where
  "testBinary os system shellPath args useValgrind err =
     subprocess_run os (test_invocation system shellPath args useValgrind err)"

subsection \<open>Feature probes\<close>

definition shellSupports :: "opsys \<Rightarrow> string \<Rightarrow> path \<Rightarrow> string list \<Rightarrow> bool py" where
  "shellSupports os system shellPath args =
     py_bind (testBinary os system shellPath args False STDOUT) (\<lambda>(out, return_code).
       if return_code = 0 then py_return True
       else if 1 \<le> return_code \<and> return_code \<le> 3 then py_return False
       else py_raise (Exception (''Unexpected exit code in shellSupports '' @ py_str return_code)))"

definition testJsShellOrXpcshell :: "opsys \<Rightarrow> string \<Rightarrow> path \<Rightarrow> string py" where
  "testJsShellOrXpcshell os system s =
     py_bind (shellSupports os system s [''-e'', ''Components'']) (\<lambda>supported.
       py_return (if supported then ''xpcshell'' else ''jsShell''))"

subsection \<open>Architecture of a binary\<close>

definition file_invocation :: "path \<Rightarrow> invocation" where
  "file_invocation binary =
     \<lparr>cmd = [''file'', path_str binary], env_dir = None, stderr = Inherited, timeout = 99\<rparr>"

text \<open>The result is \<open>Some ''32''\<close> or \<open>Some ''64''\<close>, or \<open>None\<close> where the Python function
  ends without a \<open>return\<close> statement and so returns \<open>None\<close>.\<close>

definition archOfBinary :: "opsys \<Rightarrow> string \<Rightarrow> path \<Rightarrow> string option py" where
  "archOfBinary os system binary =
     py_bind (subprocess_run os (file_invocation binary)) (\<lambda>(unsplit_file_type, rc).
     py_bind (py_index (py_split1 CHR '':'' unsplit_file_type) 1) (\<lambda>filetype.
       if system = ''Windows'' then
         py_bind (py_assert (py_in ''MS Windows'' filetype)) (\<lambda>_.
         py_return (Some (if py_in ''Intel 80386 32-bit'' filetype then ''32'' else ''64'')))
       else if py_in ''32-bit'' filetype \<or> py_in ''i386'' filetype then
         py_bind (py_assert (\<not> py_in ''64-bit'' filetype)) (\<lambda>_.
         py_return (Some ''32''))
       else if py_in ''64-bit'' filetype then
         py_bind (py_assert (\<not> py_in ''32-bit'' filetype)) (\<lambda>_.
         py_return (Some ''64''))
       else py_return None))"

subsection \<open>Build configuration queries\<close>

text \<open>\<open>s.rstrip()\<close> and \<open>s.lower()\<close> on text of code points below 256.\<close>

definition py_isspace :: "char \<Rightarrow> bool" where
  "py_isspace c \<longleftrightarrow>
     c \<in> set [CHR 0x09, CHR 0x0A, CHR 0x0B, CHR 0x0C, CHR 0x0D, CHR 0x1C, CHR 0x1D,
              CHR 0x1E, CHR 0x1F, CHR 0x20, CHR 0x85, CHR 0xA0]"

definition py_rstrip :: "string \<Rightarrow> string" where
  "py_rstrip s = rev (dropWhile py_isspace (rev s))"

definition lower_char :: "char \<Rightarrow> char" where
  "lower_char c =
     (let n = of_char c :: nat in
      if (65 \<le> n \<and> n \<le> 90) \<or> (192 \<le> n \<and> n \<le> 222 \<and> n \<noteq> 215)
      then char_of (n + 32) else c)"

definition py_lower :: "string \<Rightarrow> string" where
  "py_lower s = map lower_char s"

text \<open>The values \<open>json.loads\<close> returns: \<open>None\<close>, a \<open>bool\<close>, an \<open>int\<close>, a finite
  \<open>float\<close> (by its exact value) or a non-finite one, a \<open>str\<close>, a \<open>list\<close>, a \<open>dict\<close>.\<close>

datatype json =
    JNull
  | JBool bool
  | JInt int
  | JFloat rat
  | JNonFinite
  | JStr string
  | JArray "json list"
  | JObject "(string \<times> json) list"

text \<open>\<open>json.loads\<close> belongs to the standard library. It skips the whitespace
  \<open>[ \t\n\r]*\<close> on both sides of the document; the documents \<open>true\<close>, \<open>false\<close>
  and \<open>null\<close> give \<open>True\<close>, \<open>False\<close> and \<open>None\<close>. What it does on any other text is the
  parameter \<open>decode_other\<close>.\<close>

definition json_ws :: "char \<Rightarrow> bool" where
  "json_ws c \<longleftrightarrow> c \<in> set [CHR '' '', CHR 0x09, CHR 0x0A, CHR 0x0D]"

definition json_loads :: "(string \<Rightarrow> py_error + json) \<Rightarrow> string \<Rightarrow> py_error + json" where
  "json_loads decode_other s =
     (let doc = rev (dropWhile json_ws (rev (dropWhile json_ws s))) in
      if doc = ''true'' then Inr (JBool True)
      else if doc = ''false'' then Inr (JBool False)
      else if doc = ''null'' then Inr JNull
      else decode_other s)"

definition query_script :: "string \<Rightarrow> string" where
  "query_script parameter =
     ''print(getBuildConfiguration()['' @ [CHR 0x22] @ parameter @ [CHR 0x22] @ ''])''"

definition queryBuildConfiguration ::
  "(string \<Rightarrow> py_error + json) \<Rightarrow> opsys \<Rightarrow> string \<Rightarrow> path \<Rightarrow> string \<Rightarrow> json py" where
  "queryBuildConfiguration decode_other os system s parameter =
     py_bind (testBinary os system s [''-e'', query_script parameter] False DEVNULL)
       (\<lambda>(out, rc).
          case json_loads decode_other (py_lower (py_rstrip out)) of
            Inl e \<Rightarrow> py_raise e
          | Inr v \<Rightarrow> py_return v)"

subsection \<open>Verification of a binary\<close>

text \<open>Truth value of a decoded value, \<open>x and b\<close> and \<open>x == b\<close> for a \<open>bool\<close> \<open>b\<close>:
  \<open>and\<close> gives its left operand when that is false, and \<open>0 == False\<close>, \<open>1 == True\<close>,
  \<open>1.0 == True\<close> hold in Python.\<close>

fun py_truthy :: "json \<Rightarrow> bool" where
  "py_truthy JNull = False"
| "py_truthy (JBool b) = b"
| "py_truthy (JInt i) = (i \<noteq> 0)"
| "py_truthy (JFloat r) = (r \<noteq> 0)"
| "py_truthy JNonFinite = True"
| "py_truthy (JStr t) = (t \<noteq> [])"
| "py_truthy (JArray xs) = (xs \<noteq> [])"
| "py_truthy (JObject kvs) = (kvs \<noteq> [])"

definition py_and :: "json \<Rightarrow> bool \<Rightarrow> json" where
  "py_and x b = (if py_truthy x then JBool b else x)"

fun py_eq_bool :: "json \<Rightarrow> bool \<Rightarrow> bool" where
  "py_eq_bool (JBool c) b = (c = b)"
| "py_eq_bool (JInt i) b = (i = (if b then 1 else 0))"
| "py_eq_bool (JFloat r) b = (r = (if b then 1 else 0))"
| "py_eq_bool v b = False"

definition get_shell_cache_js_bin_path :: "path py" where
  "get_shell_cache_js_bin_path s = (Inr (shell_cache_js_bin_path (sh_obj s)), s)"

definition build_opt :: "(build_options \<Rightarrow> 'a) \<Rightarrow> 'a py" where
  "build_opt field s = (Inr (field (build_opts (sh_obj s))), s)"

definition verifyBinary :: "(string \<Rightarrow> py_error + json) \<Rightarrow> opsys \<Rightarrow> string \<Rightarrow> unit py" where
  "verifyBinary decode_other os system =
     py_bind get_shell_cache_js_bin_path (\<lambda>binary.
     py_bind (archOfBinary os system binary) (\<lambda>arch.
     py_bind (build_opt enable32) (\<lambda>e32.
     py_bind (py_assert (arch = Some (if e32 then ''32'' else ''64''))) (\<lambda>_.
     py_bind (queryBuildConfiguration decode_other os system binary ''debug'') (\<lambda>dbg.
     py_bind (build_opt enableDbg) (\<lambda>eDbg.
     py_bind (py_assert (py_eq_bool dbg eDbg)) (\<lambda>_.
     py_bind (queryBuildConfiguration decode_other os system binary ''more-deterministic'') (\<lambda>det.
     py_bind (build_opt enableMoreDeterministic) (\<lambda>eDet.
     py_bind (py_assert (py_eq_bool det eDet)) (\<lambda>_.
     py_bind (queryBuildConfiguration decode_other os system binary ''asan'') (\<lambda>asan.
     py_bind (build_opt buildWithAsan) (\<lambda>eAsan.
     py_bind (py_assert (py_eq_bool asan eAsan)) (\<lambda>_.
     py_bind (queryBuildConfiguration decode_other os system binary ''arm-simulator'') (\<lambda>sim32.
     py_bind (build_opt enable32) (\<lambda>e32a.
     py_bind (build_opt enableSimulatorArm32) (\<lambda>eSim32.
     py_bind (py_assert (py_eq_bool (py_and sim32 e32a) eSim32)) (\<lambda>_.
     py_bind (queryBuildConfiguration decode_other os system binary ''arm-simulator'') (\<lambda>sim64.
     py_bind (build_opt enable32) (\<lambda>e32b.
     py_bind (build_opt enableSimulatorArm64) (\<lambda>eSim64.
     py_assert (py_eq_bool (py_and sim64 (\<not> e32b)) eSim64)))))))))))))))))))))"

text \<open>The six \<open>assert\<close> statements of \<open>verifyBinary\<close> one by one, and the list of
  them in the order of the source. \<open>verifyBinary_checks\<close> below proves that
  \<open>verifyBinary\<close> is that list run from left to right.\<close>

definition assert_arch :: "opsys \<Rightarrow> string \<Rightarrow> path \<Rightarrow> unit py" where
  "assert_arch os system binary =
     py_bind (archOfBinary os system binary) (\<lambda>arch.
     py_bind (build_opt enable32) (\<lambda>e32.
     py_assert (arch = Some (if e32 then ''32'' else ''64''))))"

definition assert_config ::
  "(string \<Rightarrow> py_error + json) \<Rightarrow> opsys \<Rightarrow> string \<Rightarrow> path \<Rightarrow> string \<Rightarrow>
   (build_options \<Rightarrow> bool) \<Rightarrow> unit py" where
  "assert_config decode_other os system binary parameter field =
     py_bind (queryBuildConfiguration decode_other os system binary parameter) (\<lambda>v.
     py_bind (build_opt field) (\<lambda>b.
     py_assert (py_eq_bool v b)))"

definition assert_simulator32 ::
  "(string \<Rightarrow> py_error + json) \<Rightarrow> opsys \<Rightarrow> string \<Rightarrow> path \<Rightarrow> unit py" where
  "assert_simulator32 decode_other os system binary =
     py_bind (queryBuildConfiguration decode_other os system binary ''arm-simulator'') (\<lambda>sim.
     py_bind (build_opt enable32) (\<lambda>e32.
     py_bind (build_opt enableSimulatorArm32) (\<lambda>b.
     py_assert (py_eq_bool (py_and sim e32) b))))"

definition assert_simulator64 ::
  "(string \<Rightarrow> py_error + json) \<Rightarrow> opsys \<Rightarrow> string \<Rightarrow> path \<Rightarrow> unit py" where
  "assert_simulator64 decode_other os system binary =
     py_bind (queryBuildConfiguration decode_other os system binary ''arm-simulator'') (\<lambda>sim.
     py_bind (build_opt enable32) (\<lambda>e32.
     py_bind (build_opt enableSimulatorArm64) (\<lambda>b.
     py_assert (py_eq_bool (py_and sim (\<not> e32)) b))))"

definition checks ::
  "(string \<Rightarrow> py_error + json) \<Rightarrow> opsys \<Rightarrow> string \<Rightarrow> path \<Rightarrow> unit py list" where
  "checks decode_other os system binary =
     [assert_arch os system binary,
      assert_config decode_other os system binary ''debug'' enableDbg,
      assert_config decode_other os system binary ''more-deterministic'' enableMoreDeterministic,
      assert_config decode_other os system binary ''asan'' buildWithAsan,
      assert_simulator32 decode_other os system binary,
      assert_simulator64 decode_other os system binary]"

fun run_all :: "unit py list \<Rightarrow> unit py" where
  "run_all [] = py_return ()"
| "run_all (m # ms) = py_bind m (\<lambda>_. run_all ms)"

text \<open>The calls of \<open>subprocess.run\<close> that a complete verification makes, in order.\<close>

definition query_invocation :: "string \<Rightarrow> path \<Rightarrow> string \<Rightarrow> invocation" where
  "query_invocation system binary parameter =
     test_invocation system binary [''-e'', query_script parameter] False DEVNULL"

definition verify_calls :: "string \<Rightarrow> path \<Rightarrow> invocation list" where
  "verify_calls system binary =
     [file_invocation binary,
      query_invocation system binary ''debug'',
      query_invocation system binary ''more-deterministic'',
      query_invocation system binary ''asan'',
      query_invocation system binary ''arm-simulator'',
      query_invocation system binary ''arm-simulator'']"

text \<open>The two tiers of timeout that the specification speaks of.\<close>

definition tens_of_seconds :: "nat \<Rightarrow> bool" where
  "tens_of_seconds t \<longleftrightarrow> 10 \<le> t \<and> t < 100"

definition hundreds_of_seconds :: "nat \<Rightarrow> bool" where
  "hundreds_of_seconds t \<longleftrightarrow> 100 \<le> t \<and> t < 1000"

text \<open>The process started for \<open>call\<close> in state \<open>s\<close> is still running when the
  timeout of the call expires.\<close>

definition overruns :: "opsys \<Rightarrow> state \<Rightarrow> invocation \<Rightarrow> bool" where
  "overruns os s call =
     (case os (invocations s) call of
        CannotStart \<Rightarrow> False
      | Hangs \<Rightarrow> True
      | Finishes secs out rc \<Rightarrow> timeout call < secs)"

subsection \<open>Concrete inputs\<close>

definition ex_binary :: path where
  "ex_binary = \<lparr>path_str = ''/cache/js'', parent_str = ''/cache''\<rparr>"

definition ex_opts :: build_options where
  "ex_opts =
     \<lparr>enable32 = False, enableDbg = False, enableMoreDeterministic = False,
      buildWithAsan = False, enableSimulatorArm32 = False, enableSimulatorArm64 = False\<rparr>"

definition ex_state :: "build_options \<Rightarrow> state" where
  "ex_state opts =
     \<lparr>sh_obj = \<lparr>build_opts = opts, shell_cache_js_bin_path = ex_binary\<rparr>, invocations = []\<rparr>"

text \<open>An operating system where every process ends after one second with the given
  output and exit code, and one where \<open>file\<close> prints the given description after the
  name of the binary and the shell prints the given text.\<close>

definition os_const :: "string \<Rightarrow> int \<Rightarrow> opsys" where
  "os_const out code hist call = Finishes 1 out code"

definition os_shell :: "string \<Rightarrow> string \<Rightarrow> opsys" where
  "os_shell description out hist call =
     (if cmd call = [''file'', ''/cache/js'']
      then Finishes 1 (''/cache/js:'' @ description) 0
      else Finishes 2 out 0)"

text \<open>An operating system where every process takes the given number of seconds.\<close>

definition os_slow :: "nat \<Rightarrow> opsys" where
  "os_slow secs hist call = Finishes secs [] 0"

definition no_decoder :: "string \<Rightarrow> py_error + json" where
  "no_decoder s = Inl JSONDecodeError"

section \<open>Properties\<close>

lemma py_bind_Inr [simp]: "m s = (Inr x, s') \<Longrightarrow> py_bind m f s = f x s'"
  by (simp add: py_bind_def)

lemma py_bind_Inl [simp]: "m s = (Inl e, s') \<Longrightarrow> py_bind m f s = (Inl e, s')"
  by (simp add: py_bind_def)

lemma subprocess_run_Finishes:
  "os (invocations s) call = Finishes secs out rc \<Longrightarrow> secs \<le> timeout call \<Longrightarrow>
   subprocess_run os call s = (Inr (out, rc), s\<lparr>invocations := invocations s @ [call]\<rparr>)"
  by (simp add: subprocess_run_def)

lemma testBinary_Finishes:
  "os (invocations s) (test_invocation system p args v err) = Finishes secs out rc \<Longrightarrow>
   secs \<le> 999 \<Longrightarrow>
   testBinary os system p args v err s =
     (Inr (out, rc), s\<lparr>invocations := invocations s @ [test_invocation system p args v err]\<rparr>)"
  by (simp add: testBinary_def subprocess_run_Finishes test_invocation_def)

subsection \<open>Decimal numerals\<close>

lemma digit_cases: "n < 10 \<Longrightarrow> n \<in> {0, 1, 2, 3, 4, 5, 6, 7, 8, 9::nat}"
  by auto

lemma digit_char: "n < 10 \<Longrightarrow> (of_char (''0123456789'' ! n) :: nat) = 48 + n"
  by (drule digit_cases) auto

lemma digit_not_minus: "n < 10 \<Longrightarrow> CHR ''-'' \<noteq> ''0123456789'' ! n"
  by (drule digit_cases) auto

lemma digits_val_str_nat: "digits_val (str_nat n) = n"
proof (induction n rule: str_nat.induct)
  case (1 n)
  show ?case
  proof (cases "n < 10")
    case True
    then show ?thesis
      by (subst str_nat.simps) (simp add: digits_val_def digit_char)
  next
    case False
    with 1 have "digits_val (str_nat (n div 10)) = n div 10" by simp
    with False show ?thesis
      by (subst str_nat.simps) (simp add: digits_val_def digit_char)
  qed
qed

lemma str_nat_inj: "str_nat m = str_nat n \<Longrightarrow> m = n"
  by (metis digits_val_str_nat)

lemma str_nat_no_minus: "CHR ''-'' \<notin> set (str_nat n)"
proof (induction n rule: str_nat.induct)
  case (1 n)
  show ?case
  proof (cases "n < 10")
    case True
    then show ?thesis
      by (subst str_nat.simps) (simp add: digit_not_minus)
  next
    case False
    with 1 have "CHR ''-'' \<notin> set (str_nat (n div 10))" by simp
    with False show ?thesis
      by (subst str_nat.simps) (simp add: digit_not_minus)
  qed
qed

lemma py_str_inj: "py_str i = py_str j \<Longrightarrow> i = j"
proof -
  assume eq: "py_str i = py_str j"
  have neg: "CHR ''-'' # str_nat a \<noteq> str_nat b" for a b
    using str_nat_no_minus [of b] by (metis list.set_intros(1))
  show ?thesis
  proof (cases "i < 0")
    case True
    show ?thesis
    proof (cases "j < 0")
      case True
      with \<open>i < 0\<close> eq have "nat (- i) = nat (- j)"
        by (simp add: py_str_def str_nat_inj)
      with True \<open>i < 0\<close> show ?thesis by simp
    next
      case False
      with \<open>i < 0\<close> eq neg show ?thesis by (simp add: py_str_def)
    qed
  next
    case False
    show ?thesis
    proof (cases "j < 0")
      case True
      with False eq neg [of "nat (- j)" "nat i"] show ?thesis by (simp add: py_str_def)
    next
      case False
      with \<open>\<not> i < 0\<close> eq have "nat i = nat j"
        by (simp add: py_str_def str_nat_inj)
      with False \<open>\<not> i < 0\<close> show ?thesis by simp
    qed
  qed
qed

subsection \<open>Exit codes of a feature probe\<close>

lemma shellSupports_Finishes:
  assumes "os (invocations s) (test_invocation system p args False STDOUT) = Finishes secs out code"
    and "secs \<le> 999"
  shows "shellSupports os system p args s =
      (if code = 0 then py_return True
       else if 1 \<le> code \<and> code \<le> 3 then py_return False
       else py_raise (Exception (''Unexpected exit code in shellSupports '' @ py_str code)))
      (s\<lparr>invocations := invocations s @ [test_invocation system p args False STDOUT]\<rparr>)"
  unfolding shellSupports_def
  using assms testBinary_Finishes [of os s system p args False STDOUT secs out code] by simp

text \<open>
  C1. When the probe run by \<open>shellSupports\<close> ends in time with exit code \<open>code\<close>, the
  result is \<open>True\<close> for 0, \<open>False\<close> for 1, 2 and 3, and for every other code (negative
  ones and 4, 139, ... alike) an exception whose message ends with \<open>str(code)\<close>;
  no verdict is returned in that case. The numeral determines the code.
\<close>

theorem shellSupports_exit_code:
  assumes "os (invocations s) (test_invocation system p args False STDOUT) = Finishes secs out code"
    and "secs \<le> 999"
  shows "(code = 0 \<longrightarrow> fst (shellSupports os system p args s) = Inr True) \<and>
         (code \<in> {1, 2, 3} \<longrightarrow> fst (shellSupports os system p args s) = Inr False) \<and>
         (code \<notin> {0, 1, 2, 3} \<longrightarrow>
            fst (shellSupports os system p args s) =
              Inl (Exception (''Unexpected exit code in shellSupports '' @ py_str code))) \<and>
         (\<forall>c. py_str c = py_str code \<longrightarrow> c = code)"
proof -
  note run = shellSupports_Finishes [of os s system p args secs out code, OF assms]
  have "code \<notin> {0, 1, 2, 3} \<longleftrightarrow> code \<noteq> 0 \<and> \<not> (1 \<le> code \<and> code \<le> 3)"
    by auto
  then show ?thesis
    unfolding run by (auto simp: py_return_def py_raise_def dest: py_str_inj)
qed

theorem shellSupports_exit_code_witness:
  "fst (shellSupports (os_const [] 0) ''Linux'' ex_binary [''-e'', ''42''] (ex_state ex_opts)) = Inr True \<and>
   fst (shellSupports (os_const [] 2) ''Linux'' ex_binary [''-e'', ''42''] (ex_state ex_opts)) = Inr False \<and>
   fst (shellSupports (os_const [] 139) ''Linux'' ex_binary [''-e'', ''42''] (ex_state ex_opts)) =
     Inl (Exception ''Unexpected exit code in shellSupports 139'') \<and>
   fst (shellSupports (os_const [] (- 11)) ''Linux'' ex_binary [''-e'', ''42''] (ex_state ex_opts)) =
     Inl (Exception ''Unexpected exit code in shellSupports -11'')"
proof -
  have s139: "py_str 139 = ''139''" and s11: "py_str (- 11) = ''-11''"
    by code_simp+
  show ?thesis
    using shellSupports_exit_code [of "os_const [] 0" "ex_state ex_opts" "''Linux''" ex_binary "[''-e'', ''42'']" 1 "[]" 0]
      shellSupports_exit_code [of "os_const [] 2" "ex_state ex_opts" "''Linux''" ex_binary "[''-e'', ''42'']" 1 "[]" 2]
      shellSupports_exit_code [of "os_const [] 139" "ex_state ex_opts" "''Linux''" ex_binary "[''-e'', ''42'']" 1 "[]" 139]
      shellSupports_exit_code [of "os_const [] (- 11)" "ex_state ex_opts" "''Linux''" ex_binary "[''-e'', ''42'']" 1 "[]" "- 11"]
    by (simp add: os_const_def s139 s11)
qed

subsection \<open>Substrings and splitting\<close>

text \<open>\<open>sub in s\<close> holds exactly when \<open>sub\<close> occurs in \<open>s\<close> as a contiguous block.\<close>

lemma startswith_iff: "startswith s p \<longleftrightarrow> (\<exists>post. s = p @ post)"
  by (induction s p rule: startswith.induct) auto

lemma py_in_iff: "py_in sub s \<longleftrightarrow> (\<exists>pre post. s = pre @ sub @ post)"
proof (induction s)
  case Nil
  show ?case by auto
next
  case (Cons c cs)
  have "(\<exists>pre post. c # cs = pre @ sub @ post) \<longleftrightarrow>
        (\<exists>post. c # cs = sub @ post) \<or> (\<exists>pre post. cs = pre @ sub @ post)"
  proof
    assume "\<exists>pre post. c # cs = pre @ sub @ post"
    then obtain pre post where eq: "c # cs = pre @ sub @ post" by blast
    show "(\<exists>post. c # cs = sub @ post) \<or> (\<exists>pre post. cs = pre @ sub @ post)"
    proof (cases pre)
      case Nil
      with eq show ?thesis by auto
    next
      case (Cons a pre')
      with eq have "cs = pre' @ sub @ post" by simp
      then show ?thesis by blast
    qed
  next
    assume "(\<exists>post. c # cs = sub @ post) \<or> (\<exists>pre post. cs = pre @ sub @ post)"
    then show "\<exists>pre post. c # cs = pre @ sub @ post"
    proof
      assume "\<exists>post. c # cs = sub @ post"
      then obtain post where "c # cs = [] @ sub @ post" by auto
      then show ?thesis by blast
    next
      assume "\<exists>pre post. cs = pre @ sub @ post"
      then obtain pre post where "c # cs = (c # pre) @ sub @ post" by auto
      then show ?thesis by blast
    qed
  qed
  with Cons show ?case by (simp add: startswith_iff)
qed

lemma py_split1_colon:
  "sep \<notin> set name \<Longrightarrow> py_split1 sep (name @ sep # rest) = [name, rest]"
proof -
  assume notin: "sep \<notin> set name"
  then have "takeWhile (\<lambda>c. c \<noteq> sep) (name @ sep # rest) = name"
    by (induction name) auto
  moreover from notin have "dropWhile (\<lambda>c. c \<noteq> sep) (name @ sep # rest) = sep # rest"
    by (induction name) auto
  ultimately show ?thesis
    by (simp add: py_split1_def)
qed

subsection \<open>Architecture of a binary\<close>

lemma archOfBinary_Finishes:
  assumes "os (invocations s) (file_invocation binary) = Finishes secs out rc"
    and "secs \<le> 99"
  shows "archOfBinary os system binary s =
     py_bind (py_index (py_split1 CHR '':'' out) 1) (\<lambda>filetype.
       if system = ''Windows'' then
         py_bind (py_assert (py_in ''MS Windows'' filetype)) (\<lambda>_.
         py_return (Some (if py_in ''Intel 80386 32-bit'' filetype then ''32'' else ''64'')))
       else if py_in ''32-bit'' filetype \<or> py_in ''i386'' filetype then
         py_bind (py_assert (\<not> py_in ''64-bit'' filetype)) (\<lambda>_.
         py_return (Some ''32''))
       else if py_in ''64-bit'' filetype then
         py_bind (py_assert (\<not> py_in ''32-bit'' filetype)) (\<lambda>_.
         py_return (Some ''64''))
       else py_return None)
     (s\<lparr>invocations := invocations s @ [file_invocation binary]\<rparr>)"
proof -
  have "timeout (file_invocation binary) = 99"
    by (simp add: file_invocation_def)
  with assms have "subprocess_run os (file_invocation binary) s =
      (Inr (out, rc), s\<lparr>invocations := invocations s @ [file_invocation binary]\<rparr>)"
    by (simp add: subprocess_run_Finishes)
  then show ?thesis
    unfolding archOfBinary_def by simp
qed

text \<open>
  C2. Not on Windows, when \<open>file\<close> ends in time and \<open>filetype\<close> is what follows the
  first colon of its output: if \<open>filetype\<close> contains \<open>32-bit\<close> or \<open>i386\<close>, then
  \<open>archOfBinary\<close> returns \<open>"32"\<close>, unless \<open>filetype\<close> contains \<open>64-bit\<close> too, in which
  case the assertion fails; if it contains \<open>64-bit\<close> and neither of the other two
  markers, the result is \<open>"64"\<close>; and with both \<open>32-bit\<close> and \<open>64-bit\<close> in it the call
  always ends in \<open>AssertionError\<close>.
\<close>

theorem archOfBinary_markers:
  assumes "system \<noteq> ''Windows''"
    and "os (invocations s) (file_invocation binary) = Finishes secs (name @ '':'' @ filetype) rc"
    and "CHR '':'' \<notin> set name"
    and "secs \<le> 99"
  shows "(py_in ''32-bit'' filetype \<or> py_in ''i386'' filetype \<longrightarrow>
            fst (archOfBinary os system binary s) =
              (if py_in ''64-bit'' filetype then Inl AssertionError else Inr (Some ''32''))) \<and>
         (py_in ''64-bit'' filetype \<and> \<not> py_in ''32-bit'' filetype \<and> \<not> py_in ''i386'' filetype \<longrightarrow>
            fst (archOfBinary os system binary s) = Inr (Some ''64'')) \<and>
         (py_in ''32-bit'' filetype \<and> py_in ''64-bit'' filetype \<longrightarrow>
            fst (archOfBinary os system binary s) = Inl AssertionError)"
proof -
  have split: "py_split1 CHR '':'' (name @ '':'' @ filetype) = [name, filetype]"
    using assms(3) py_split1_colon [of "CHR '':''" name filetype] by simp
  show ?thesis
    unfolding archOfBinary_Finishes [of os s binary secs _ rc system, OF assms(2) assms(4)] split
    using assms(1)
    by (simp add: py_index_def py_return_def py_raise_def py_assert_def py_bind_def)
qed

text \<open>
  C10. When \<open>file\<close> ends in time, on any platform, \<open>archOfBinary\<close> ends in
  \<open>IndexError\<close> exactly when the output has no colon: element 1 of the split does not
  exist then, and with a colon the marker matching is reached, which never raises
  \<open>IndexError\<close>.
\<close>

theorem archOfBinary_no_colon:
  assumes "os (invocations s) (file_invocation binary) = Finishes secs out rc"
    and "secs \<le> 99"
  shows "fst (archOfBinary os system binary s) = Inl IndexError \<longleftrightarrow> CHR '':'' \<notin> set out"
  unfolding archOfBinary_Finishes [of os s binary secs out rc system, OF assms]
  by (simp add: py_index_def py_split1_def py_return_def py_raise_def py_assert_def py_bind_def)

text \<open>Not on Windows, a description with none of the three markers makes \<open>archOfBinary\<close>
  return \<open>None\<close>.\<close>

lemma archOfBinary_unmarked:
  assumes "system \<noteq> ''Windows''"
    and "os (invocations s) (file_invocation binary) = Finishes secs (name @ '':'' @ filetype) rc"
    and "CHR '':'' \<notin> set name"
    and "secs \<le> 99"
    and "\<not> py_in ''32-bit'' filetype" "\<not> py_in ''i386'' filetype" "\<not> py_in ''64-bit'' filetype"
  shows "fst (archOfBinary os system binary s) = Inr None"
proof -
  have split: "py_split1 CHR '':'' (name @ '':'' @ filetype) = [name, filetype]"
    using assms(3) py_split1_colon [of "CHR '':''" name filetype] by simp
  show ?thesis
    unfolding archOfBinary_Finishes [of os s binary secs _ rc system, OF assms(2) assms(4)] split
    using assms(1,5-7)
    by (simp add: py_index_def py_return_def py_bind_def)
qed

text \<open>
  C7. On Linux, with the description \<open>data\<close> after the colon, which has none of the
  markers \<open>32-bit\<close>, \<open>i386\<close> and \<open>64-bit\<close>, \<open>archOfBinary\<close> raises nothing: it returns
  \<open>None\<close> after its one call of \<open>file\<close>.
\<close>

theorem archOfBinary_no_marker:
  "archOfBinary (os_shell '' data'' []) ''Linux'' ex_binary (ex_state ex_opts) =
     (Inr None, (ex_state ex_opts)\<lparr>invocations := [file_invocation ex_binary]\<rparr>)"
  by code_simp


theorem archOfBinary_markers_witness:
  "fst (archOfBinary (os_shell '' ELF 32-bit LSB executable, Intel 80386'' []) ''Linux''
          ex_binary (ex_state ex_opts)) = Inr (Some ''32'') \<and>
   fst (archOfBinary (os_shell '' ELF 64-bit LSB executable, x86-64'' []) ''Linux''
          ex_binary (ex_state ex_opts)) = Inr (Some ''64'') \<and>
   fst (archOfBinary (os_shell '' 32-bit and 64-bit'' []) ''Linux''
          ex_binary (ex_state ex_opts)) = Inl AssertionError"
proof -
  have run: "os_shell d [] (invocations (ex_state ex_opts)) (file_invocation ex_binary) =
      Finishes 1 (''/cache/js'' @ '':'' @ d) 0" for d
    by (simp add: os_shell_def file_invocation_def ex_binary_def)
  have name: "CHR '':'' \<notin> set ''/cache/js''" and sys: "''Linux'' \<noteq> ''Windows''"
    by simp_all
  have m32: "py_in ''32-bit'' '' ELF 32-bit LSB executable, Intel 80386''"
    and n32: "\<not> py_in ''64-bit'' '' ELF 32-bit LSB executable, Intel 80386''"
    and m64: "py_in ''64-bit'' '' ELF 64-bit LSB executable, x86-64''"
    and n64: "\<not> py_in ''32-bit'' '' ELF 64-bit LSB executable, x86-64''"
    and n64': "\<not> py_in ''i386'' '' ELF 64-bit LSB executable, x86-64''"
    and b32: "py_in ''32-bit'' '' 32-bit and 64-bit''"
    and b64: "py_in ''64-bit'' '' 32-bit and 64-bit''"
    by code_simp+
  show ?thesis
    using sys name
      run [of "'' ELF 32-bit LSB executable, Intel 80386''"]
      run [of "'' ELF 64-bit LSB executable, x86-64''"]
      run [of "'' 32-bit and 64-bit''"]
      archOfBinary_markers [of "''Linux''" "os_shell '' ELF 32-bit LSB executable, Intel 80386'' []"
        "ex_state ex_opts" ex_binary 1 "''/cache/js''" "'' ELF 32-bit LSB executable, Intel 80386''" 0]
      archOfBinary_markers [of "''Linux''" "os_shell '' ELF 64-bit LSB executable, x86-64'' []"
        "ex_state ex_opts" ex_binary 1 "''/cache/js''" "'' ELF 64-bit LSB executable, x86-64''" 0]
      archOfBinary_markers [of "''Linux''" "os_shell '' 32-bit and 64-bit'' []"
        "ex_state ex_opts" ex_binary 1 "''/cache/js''" "'' 32-bit and 64-bit''" 0]
      m32 n32 m64 n64 n64' b32 b64
    by simp
qed

theorem archOfBinary_no_colon_witness:
  "fst (archOfBinary (os_const ''cannot open'' 1) ''Linux'' ex_binary (ex_state ex_opts)) =
     Inl IndexError \<and>
   fst (archOfBinary (os_shell '' ELF 64-bit LSB executable, x86-64'' []) ''Linux''
          ex_binary (ex_state ex_opts)) \<noteq> Inl IndexError"
  using archOfBinary_no_colon [of "os_const ''cannot open'' 1" "ex_state ex_opts" ex_binary 1
      "''cannot open''" 1 "''Linux''"]
    archOfBinary_no_colon [of "os_shell '' ELF 64-bit LSB executable, x86-64'' []"
      "ex_state ex_opts" ex_binary 1 "''/cache/js: ELF 64-bit LSB executable, x86-64''" 0 "''Linux''"]
  by (simp add: os_const_def os_shell_def file_invocation_def ex_binary_def)

subsection \<open>What each function does to the state\<close>

lemma subprocess_run_state:
  "snd (subprocess_run os call s) = s\<lparr>invocations := invocations s @ [call]\<rparr>"
  by (simp add: subprocess_run_def Let_def split: proc.splits)

lemma py_bind_state:
  assumes "\<And>x t. snd (f x t) = t"
  shows "snd (py_bind m f s) = snd (m s)"
  using assms by (cases "m s") (auto simp: py_bind_def split: sum.splits)

lemma testBinary_state:
  "snd (testBinary os system p args v err s) =
     s\<lparr>invocations := invocations s @ [test_invocation system p args v err]\<rparr>"
  by (simp add: testBinary_def subprocess_run_state)

lemma shellSupports_state:
  "snd (shellSupports os system p args s) =
     s\<lparr>invocations := invocations s @ [test_invocation system p args False STDOUT]\<rparr>"
  unfolding shellSupports_def
  by (subst py_bind_state) (auto simp: testBinary_state py_return_def py_raise_def)

lemma testJsShellOrXpcshell_state:
  "snd (testJsShellOrXpcshell os system p s) =
     s\<lparr>invocations := invocations s @
        [test_invocation system p [''-e'', ''Components''] False STDOUT]\<rparr>"
  unfolding testJsShellOrXpcshell_def
  by (subst py_bind_state) (auto simp: shellSupports_state py_return_def)

lemma queryBuildConfiguration_state:
  "snd (queryBuildConfiguration dec os system p parameter s) =
     s\<lparr>invocations := invocations s @ [query_invocation system p parameter]\<rparr>"
  unfolding queryBuildConfiguration_def query_invocation_def
  by (subst py_bind_state)
     (auto simp: testBinary_state py_return_def py_raise_def split: sum.splits)

lemma py_assert_state: "snd (py_assert b s) = s"
  by (simp add: py_assert_def py_return_def py_raise_def)

lemma archOfBinary_state:
  "snd (archOfBinary os system binary s) =
     s\<lparr>invocations := invocations s @ [file_invocation binary]\<rparr>"
proof -
  have inner: "snd (py_bind (py_assert b) (\<lambda>_. py_return v) t) = t" for b v t
    by (simp add: py_bind_def py_assert_def py_return_def py_raise_def)
  have index: "snd (py_bind (py_index xs i) f t) = t" if "\<And>x u. snd (f x u) = u"
    for xs :: "string list" and i t and f :: "string \<Rightarrow> string option py"
    using that by (simp add: py_bind_def py_index_def py_return_def py_raise_def)
  show ?thesis
    unfolding archOfBinary_def
    by (subst py_bind_state)
       (auto simp: subprocess_run_state inner py_return_def intro!: index)
qed

subsection \<open>Kind of a binary\<close>

text \<open>
  C6. \<open>testJsShellOrXpcshell\<close> makes one call, of the binary with the arguments
  \<open>-e Components\<close>. When that call ends in time, the result is \<open>"xpcshell"\<close> for exit
  code 0 and \<open>"jsShell"\<close> for 1, 2 and 3. In every case the result is the verdict of
  \<open>shellSupports\<close> mapped to one of the two names, an exception of \<open>shellSupports\<close>
  being passed on; nothing else is looked at.
\<close>

theorem testJsShellOrXpcshell_kind:
  assumes "os (invocations s) (test_invocation system p [''-e'', ''Components''] False STDOUT) =
             Finishes secs out code"
    and "secs \<le> 999"
  shows "(code = 0 \<longrightarrow> fst (testJsShellOrXpcshell os system p s) = Inr ''xpcshell'') \<and>
         (code \<in> {1, 2, 3} \<longrightarrow> fst (testJsShellOrXpcshell os system p s) = Inr ''jsShell'') \<and>
         map cmd (invocations (snd (testJsShellOrXpcshell os system p s))) =
           map cmd (invocations s) @ [[path_str p, ''-e'', ''Components'']] \<and>
         testJsShellOrXpcshell os system p s =
           (case shellSupports os system p [''-e'', ''Components''] s of
              (Inl e, s') \<Rightarrow> (Inl e, s')
            | (Inr supported, s') \<Rightarrow> (Inr (if supported then ''xpcshell'' else ''jsShell''), s'))"
proof -
  have "code \<in> {1, 2, 3} \<longleftrightarrow> 1 \<le> code \<and> code \<le> 3"
    by auto
  then have "(code = 0 \<longrightarrow> fst (testJsShellOrXpcshell os system p s) = Inr ''xpcshell'') \<and>
         (code \<in> {1, 2, 3} \<longrightarrow> fst (testJsShellOrXpcshell os system p s) = Inr ''jsShell'')"
    unfolding testJsShellOrXpcshell_def py_bind_def
      shellSupports_Finishes [of os s system p "[''-e'', ''Components'']" secs out code, OF assms]
    by (simp add: py_return_def)
  moreover have "map cmd (invocations (snd (testJsShellOrXpcshell os system p s))) =
           map cmd (invocations s) @ [[path_str p, ''-e'', ''Components'']]"
    by (simp add: testJsShellOrXpcshell_state test_invocation_def test_cmd_def)
  moreover have "testJsShellOrXpcshell os system p s =
           (case shellSupports os system p [''-e'', ''Components''] s of
              (Inl e, s') \<Rightarrow> (Inl e, s')
            | (Inr supported, s') \<Rightarrow> (Inr (if supported then ''xpcshell'' else ''jsShell''), s'))"
    by (auto simp: testJsShellOrXpcshell_def py_bind_def py_return_def split: prod.splits sum.splits)
  ultimately show ?thesis by blast
qed

theorem testJsShellOrXpcshell_kind_witness:
  "fst (testJsShellOrXpcshell (os_const [] 0) ''Linux'' ex_binary (ex_state ex_opts)) =
     Inr ''xpcshell'' \<and>
   fst (testJsShellOrXpcshell (os_const [] 2) ''Linux'' ex_binary (ex_state ex_opts)) =
     Inr ''jsShell'' \<and>
   map cmd (invocations (snd (testJsShellOrXpcshell (os_const [] 2) ''Linux'' ex_binary
     (ex_state ex_opts)))) = [[''/cache/js'', ''-e'', ''Components'']]"
proof -
  have run: "os_const [] c (invocations (ex_state ex_opts))
      (test_invocation ''Linux'' ex_binary [''-e'', ''Components''] False STDOUT) = Finishes 1 [] c"
    for c
    by (simp add: os_const_def)
  have fast: "(1::nat) \<le> 999"
    by simp
  note w0 = testJsShellOrXpcshell_kind [of "os_const [] 0" "ex_state ex_opts" "''Linux''"
      ex_binary 1 "[]" 0, OF run fast]
  note w2 = testJsShellOrXpcshell_kind [of "os_const [] 2" "ex_state ex_opts" "''Linux''"
      ex_binary 1 "[]" 2, OF run fast]
  from w0 [THEN conjunct1] have "fst (testJsShellOrXpcshell (os_const [] 0) ''Linux'' ex_binary (ex_state ex_opts)) =
      Inr ''xpcshell''"
    by simp
  moreover from w2 [THEN conjunct2, THEN conjunct1] have "fst (testJsShellOrXpcshell (os_const [] 2) ''Linux'' ex_binary
      (ex_state ex_opts)) = Inr ''jsShell''"
    by simp
  moreover from w2 [THEN conjunct2, THEN conjunct2, THEN conjunct1]
  have "map cmd (invocations (snd (testJsShellOrXpcshell (os_const [] 2) ''Linux'' ex_binary
      (ex_state ex_opts)))) = [[''/cache/js'', ''-e'', ''Components'']]"
    by (simp add: ex_state_def ex_binary_def)
  ultimately show ?thesis by blast
qed

subsection \<open>Build configuration queries\<close>

lemma queryBuildConfiguration_Finishes:
  assumes "os (invocations s) (query_invocation system p parameter) = Finishes secs out rc"
    and "secs \<le> 999"
  shows "queryBuildConfiguration dec os system p parameter s =
     (json_loads dec (py_lower (py_rstrip out)),
      s\<lparr>invocations := invocations s @ [query_invocation system p parameter]\<rparr>)"
proof -
  have "testBinary os system p [''-e'', query_script parameter] False DEVNULL s =
      (Inr (out, rc), s\<lparr>invocations := invocations s @ [query_invocation system p parameter]\<rparr>)"
    using assms
      testBinary_Finishes [of os s system p "[''-e'', query_script parameter]" False DEVNULL secs out rc]
    by (simp add: query_invocation_def)
  then show ?thesis
    unfolding queryBuildConfiguration_def
    by (simp add: py_return_def py_raise_def split: sum.splits)
qed

lemma py_rstrip_append:
  assumes "\<forall>c\<in>set ws. py_isspace c" and "t \<noteq> []" and "\<not> py_isspace (last t)"
  shows "py_rstrip (t @ ws) = t"
proof -
  have "dropWhile py_isspace (rev ws @ rev t) = dropWhile py_isspace (rev t)"
    using assms(1) by (intro dropWhile_append2) simp
  moreover have "dropWhile py_isspace (rev t) = rev t"
    using assms(2,3) by (cases t rule: rev_cases) simp_all
  ultimately show ?thesis
    by (simp add: py_rstrip_def)
qed

lemma any_case_true:
  assumes "list_all2 (\<lambda>c (l, u). c = l \<or> c = u) t (zip ''true'' ''TRUE'')"
  shows "py_lower t = ''true'' \<and> t \<noteq> [] \<and> \<not> py_isspace (last t)"
proof -
  from assms obtain a b c d where t: "t = [a, b, c, d]"
    and "a = CHR ''t'' \<or> a = CHR ''T''" and "b = CHR ''r'' \<or> b = CHR ''R''"
    and "c = CHR ''u'' \<or> c = CHR ''U''" and "d = CHR ''e'' \<or> d = CHR ''E''"
    by (auto simp: list_all2_Cons2)
  moreover have "lower_char CHR ''t'' = CHR ''t''" "lower_char CHR ''T'' = CHR ''t''"
    "lower_char CHR ''r'' = CHR ''r''" "lower_char CHR ''R'' = CHR ''r''"
    "lower_char CHR ''u'' = CHR ''u''" "lower_char CHR ''U'' = CHR ''u''"
    "lower_char CHR ''e'' = CHR ''e''" "lower_char CHR ''E'' = CHR ''e''"
    by code_simp+
  ultimately show ?thesis
    by (auto simp: py_lower_def py_isspace_def)
qed

lemma json_loads_true: "json_loads dec ''true'' = Inr (JBool True)"
  by (simp add: json_loads_def json_ws_def)

text \<open>
  C4. When the probe run by \<open>queryBuildConfiguration\<close> ends in time with standard output
  \<open>out\<close>, the result is \<open>json.loads(out.rstrip().lower())\<close>, whatever the exit code. In
  particular, if \<open>out\<close> is the word \<open>true\<close> with each letter in either case, followed by
  any number of whitespace characters, the result is the JSON boolean \<open>true\<close>.
\<close>

theorem queryBuildConfiguration_parses:
  assumes "os (invocations s) (query_invocation system p parameter) = Finishes secs out rc"
    and "secs \<le> 999"
  shows "fst (queryBuildConfiguration dec os system p parameter s) =
           json_loads dec (py_lower (py_rstrip out)) \<and>
         (\<forall>t ws. out = t @ ws \<and>
            list_all2 (\<lambda>c (l, u). c = l \<or> c = u) t (zip ''true'' ''TRUE'') \<and>
            (\<forall>c\<in>set ws. py_isspace c) \<longrightarrow>
            fst (queryBuildConfiguration dec os system p parameter s) = Inr (JBool True))"
proof -
  have parse: "fst (queryBuildConfiguration dec os system p parameter s) =
      json_loads dec (py_lower (py_rstrip out))"
    using queryBuildConfiguration_Finishes [of os s system p parameter secs out rc dec] assms
    by simp
  have "json_loads dec (py_lower (py_rstrip (t @ ws))) = Inr (JBool True)"
    if "list_all2 (\<lambda>c (l, u). c = l \<or> c = u) t (zip ''true'' ''TRUE'')"
      and "\<forall>c\<in>set ws. py_isspace c" for t ws
  proof -
    from any_case_true [OF that(1)] that(2) have "py_rstrip (t @ ws) = t"
      by (simp add: py_rstrip_append)
    with any_case_true [OF that(1)] show ?thesis
      by (simp add: json_loads_true)
  qed
  with parse show ?thesis
    by auto
qed

theorem queryBuildConfiguration_parses_witness:
  "fst (queryBuildConfiguration no_decoder (os_const (''TrUe'' @ [CHR 0x0A, CHR '' '']) 0) ''Linux''
          ex_binary ''debug'' (ex_state ex_opts)) = Inr (JBool True)"
proof -
  have run: "os_const (''TrUe'' @ [CHR 0x0A, CHR '' '']) 0 (invocations (ex_state ex_opts))
      (query_invocation ''Linux'' ex_binary ''debug'') =
      Finishes 1 (''TrUe'' @ [CHR 0x0A, CHR '' '']) 0"
    by (simp add: os_const_def)
  have fast: "(1::nat) \<le> 999"
    by simp
  have word: "list_all2 (\<lambda>c (l, u). c = l \<or> c = u) ''TrUe'' (zip ''true'' ''TRUE'')"
    by simp
  have blank: "\<forall>c\<in>set [CHR 0x0A, CHR '' '']. py_isspace c"
    by (simp add: py_isspace_def)
  from queryBuildConfiguration_parses [of "os_const (''TrUe'' @ [CHR 0x0A, CHR '' '']) 0"
      "ex_state ex_opts" "''Linux''" ex_binary "''debug''" 1 "''TrUe'' @ [CHR 0x0A, CHR '' '']" 0
      no_decoder, OF run fast, THEN conjunct2, rule_format, of "''TrUe''" "[CHR 0x0A, CHR '' '']"]
    word blank
  show ?thesis
    by blast
qed

subsection \<open>The checks of \<open>verifyBinary\<close>\<close>

lemma py_bind_assoc: "py_bind (py_bind m f) g = py_bind m (\<lambda>x. py_bind (f x) g)"
  by (rule ext) (simp add: py_bind_def split: prod.splits sum.splits)

lemma py_bind_return: "py_bind m py_return = m"
  by (rule ext) (simp add: py_bind_def py_return_def split: prod.splits sum.splits)

lemma build_opt_bind [simp]:
  "py_bind (build_opt field) f s = f (field (build_opts (sh_obj s))) s"
  by (simp add: py_bind_def build_opt_def)

lemma get_path_bind [simp]:
  "py_bind get_shell_cache_js_bin_path f s = f (shell_cache_js_bin_path (sh_obj s)) s"
  by (simp add: py_bind_def get_shell_cache_js_bin_path_def)

lemma verifyBinary_checks:
  "verifyBinary dec os system s =
     run_all (checks dec os system (shell_cache_js_bin_path (sh_obj s))) s"
  by (simp add: verifyBinary_def checks_def assert_arch_def assert_config_def
      assert_simulator32_def assert_simulator64_def py_bind_assoc py_bind_return)

lemma run_all_append:
  "run_all (xs @ ys) s =
     (case run_all xs s of (Inl e, s1) \<Rightarrow> (Inl e, s1) | (Inr u, s1) \<Rightarrow> run_all ys s1)"
  by (induction xs arbitrary: s)
     (auto simp: py_return_def py_bind_def split: prod.splits sum.splits)

lemma run_all_fails:
  assumes "run_all xs s = (Inr (), s1)" and "m s1 = (Inl e, s2)"
  shows "run_all (xs @ m # ys) s = (Inl e, s2)"
  using assms by (simp add: run_all_append py_bind_def)

lemma assert_arch_state:
  "snd (assert_arch os system binary s) =
     s\<lparr>invocations := invocations s @ [file_invocation binary]\<rparr>"
  unfolding assert_arch_def
  by (subst py_bind_state) (simp_all add: py_assert_state archOfBinary_state)

lemma assert_config_state:
  "snd (assert_config dec os system binary parameter field s) =
     s\<lparr>invocations := invocations s @ [query_invocation system binary parameter]\<rparr>"
  unfolding assert_config_def
  by (subst py_bind_state) (simp_all add: py_assert_state queryBuildConfiguration_state)

lemma assert_simulator32_state:
  "snd (assert_simulator32 dec os system binary s) =
     s\<lparr>invocations := invocations s @ [query_invocation system binary ''arm-simulator'']\<rparr>"
  unfolding assert_simulator32_def
  by (subst py_bind_state) (simp_all add: py_assert_state queryBuildConfiguration_state)

lemma assert_simulator64_state:
  "snd (assert_simulator64 dec os system binary s) =
     s\<lparr>invocations := invocations s @ [query_invocation system binary ''arm-simulator'']\<rparr>"
  unfolding assert_simulator64_def
  by (subst py_bind_state) (simp_all add: py_assert_state queryBuildConfiguration_state)

lemma run_all_calls:
  assumes "list_all2 (\<lambda>m c. \<forall>t. snd (m t) = t\<lparr>invocations := invocations t @ [c]\<rparr>) ms cs"
  shows "\<exists>k\<le>length cs.
           snd (run_all ms s) = s\<lparr>invocations := invocations s @ take k cs\<rparr> \<and>
           (fst (run_all ms s) = Inr () \<longrightarrow> k = length cs) \<and>
           (ms \<noteq> [] \<longrightarrow> 1 \<le> k)"
  using assms
proof (induction ms cs arbitrary: s rule: list_all2_induct)
  case Nil
  show ?case by (simp add: py_return_def)
next
  case (Cons m ms c cs)
  from Cons.hyps(1) have step: "snd (m s) = s\<lparr>invocations := invocations s @ [c]\<rparr>"
    by simp
  show ?case
  proof (cases "m s")
    case (Pair r s1)
    with step have s1: "s1 = s\<lparr>invocations := invocations s @ [c]\<rparr>"
      by simp
    show ?thesis
    proof (cases r)
      case (Inl e)
      with Pair s1 have "run_all (m # ms) s = (Inl e, s\<lparr>invocations := invocations s @ take 1 (c # cs)\<rparr>)"
        by (simp add: py_bind_def)
      then show ?thesis
        by (intro exI [of _ 1]) simp
    next
      case (Inr u)
      from Cons.IH [of s1] obtain k where k: "k \<le> length cs"
        and snd: "snd (run_all ms s1) = s1\<lparr>invocations := invocations s1 @ take k cs\<rparr>"
        and full: "fst (run_all ms s1) = Inr () \<longrightarrow> k = length cs"
        by blast
      from Inr Pair have run: "run_all (m # ms) s = run_all ms s1"
        by (simp add: py_bind_def)
      from snd s1 have "snd (run_all ms s1) =
          s\<lparr>invocations := invocations s @ take (Suc k) (c # cs)\<rparr>"
        by simp
      with k full run show ?thesis
        by (intro exI [of _ "Suc k"]) simp
    qed
  qed
qed

lemma checks_calls:
  "list_all2 (\<lambda>m c. \<forall>t. snd (m t) = t\<lparr>invocations := invocations t @ [c]\<rparr>)
     (checks dec os system binary) (verify_calls system binary)"
  by (simp add: checks_def verify_calls_def assert_arch_state assert_config_state
      assert_simulator32_state assert_simulator64_state)

lemma verifyBinary_state:
  "\<exists>k. 1 \<le> k \<and> k \<le> 6 \<and>
     snd (verifyBinary dec os system s) =
       s\<lparr>invocations := invocations s @
          take k (verify_calls system (shell_cache_js_bin_path (sh_obj s)))\<rparr> \<and>
     (fst (verifyBinary dec os system s) = Inr () \<longrightarrow> k = 6)"
proof -
  have "length (verify_calls system (shell_cache_js_bin_path (sh_obj s))) = 6"
    and "checks dec os system (shell_cache_js_bin_path (sh_obj s)) \<noteq> []"
    by (simp_all add: verify_calls_def checks_def)
  with run_all_calls [OF checks_calls [of dec os system "shell_cache_js_bin_path (sh_obj s)"], of s]
  show ?thesis
    unfolding verifyBinary_checks by auto
qed

text \<open>
  C9. Whatever \<open>verifyBinary\<close> does, whether it returns or raises, the compiled-shell
  object is afterwards what it was before: its six build options \<open>enable32\<close>,
  \<open>enableDbg\<close>, \<open>enableMoreDeterministic\<close>, \<open>buildWithAsan\<close>, \<open>enableSimulatorArm32\<close> and
  \<open>enableSimulatorArm64\<close> are read and never written.
\<close>

theorem verifyBinary_keeps_build_opts:
  "sh_obj (snd (verifyBinary dec os system s)) = sh_obj s \<and>
   build_opts (sh_obj (snd (verifyBinary dec os system s))) = build_opts (sh_obj s)"
proof -
  from verifyBinary_state [of dec os system s] obtain k where
    "snd (verifyBinary dec os system s) =
       s\<lparr>invocations := invocations s @
          take k (verify_calls system (shell_cache_js_bin_path (sh_obj s)))\<rparr>"
    by blast
  then show ?thesis by simp
qed

subsection \<open>The two checks of the ARM simulator\<close>

lemma run_all_Cons_ok:
  "run_all (m # ms) s = (Inr (), s') \<longleftrightarrow>
     (\<exists>s1. m s = (Inr (), s1) \<and> run_all ms s1 = (Inr (), s'))"
  by (cases "m s") (auto simp: py_bind_def split: sum.splits)

lemma run_all_Nil_ok: "run_all [] s = (Inr (), s') \<longleftrightarrow> s' = s"
  by (auto simp: py_return_def)

lemma py_and_eq_bool:
  "py_eq_bool (py_and q e) a \<Longrightarrow> (py_truthy q \<and> e) = a"
  by (cases q) (auto simp: py_and_def split: if_splits)

lemma assert_simulator32_ok:
  "assert_simulator32 dec os system binary t = (Inr (), t') \<longleftrightarrow>
     (\<exists>q. queryBuildConfiguration dec os system binary ''arm-simulator'' t = (Inr q, t') \<and>
          py_eq_bool (py_and q (enable32 (build_opts (sh_obj t'))))
            (enableSimulatorArm32 (build_opts (sh_obj t'))))"
  unfolding assert_simulator32_def
  by (cases "queryBuildConfiguration dec os system binary ''arm-simulator'' t")
     (auto simp: py_bind_def build_opt_def py_assert_def py_return_def py_raise_def
       split: sum.splits)

lemma assert_simulator64_ok:
  "assert_simulator64 dec os system binary t = (Inr (), t') \<longleftrightarrow>
     (\<exists>q. queryBuildConfiguration dec os system binary ''arm-simulator'' t = (Inr q, t') \<and>
          py_eq_bool (py_and q (\<not> enable32 (build_opts (sh_obj t'))))
            (enableSimulatorArm64 (build_opts (sh_obj t'))))"
  unfolding assert_simulator64_def
  by (cases "queryBuildConfiguration dec os system binary ''arm-simulator'' t")
     (auto simp: py_bind_def build_opt_def py_assert_def py_return_def py_raise_def
       split: sum.splits)

lemma assert_simulator32_fails:
  assumes "queryBuildConfiguration dec os system binary ''arm-simulator'' t = (Inr q, t')"
    and "\<not> py_eq_bool (py_and q (enable32 (build_opts (sh_obj t'))))
            (enableSimulatorArm32 (build_opts (sh_obj t')))"
  shows "assert_simulator32 dec os system binary t = (Inl AssertionError, t')"
  using assms unfolding assert_simulator32_def
  by (simp add: py_bind_def build_opt_def py_assert_def py_raise_def)

lemma assert_simulator64_fails:
  assumes "queryBuildConfiguration dec os system binary ''arm-simulator'' t = (Inr q, t')"
    and "\<not> py_eq_bool (py_and q (\<not> enable32 (build_opts (sh_obj t'))))
            (enableSimulatorArm64 (build_opts (sh_obj t')))"
  shows "assert_simulator64 dec os system binary t = (Inl AssertionError, t')"
  using assms unfolding assert_simulator64_def
  by (simp add: py_bind_def build_opt_def py_assert_def py_raise_def)

lemma queryBuildConfiguration_sh:
  "queryBuildConfiguration dec os system binary parameter t = (r, t') \<Longrightarrow> sh_obj t' = sh_obj t"
  using queryBuildConfiguration_state [of dec os system binary parameter t] by simp

lemma run_all_checks_sh:
  assumes "run_all (take n (checks dec os system binary)) s = (r, s')"
  shows "sh_obj s' = sh_obj s"
proof -
  have "list_all2 (\<lambda>m c. \<forall>t. snd (m t) = t\<lparr>invocations := invocations t @ [c]\<rparr>)
      (take n (checks dec os system binary)) (take n (verify_calls system binary))"
    by (rule list_all2_takeI) (rule checks_calls)
  from run_all_calls [OF this, of s] assms show ?thesis
    by auto
qed

text \<open>
  C3. With \<open>binary\<close> and the build options taken from the compiled-shell object:
  if \<open>verifyBinary\<close> returns normally, then its last two queries of \<open>arm-simulator\<close>
  gave values \<open>q5\<close> and \<open>q6\<close> for which \<open>(q5 and enable32) == enableSimulatorArm32\<close> and
  \<open>(q6 and not enable32) == enableSimulatorArm64\<close> hold in Python, and so do the
  equalities of truth values. If the first four checks pass and the fifth query gives
  a value for which the first equality fails, \<open>verifyBinary\<close> ends in
  \<open>AssertionError\<close> right after that query; likewise for the sixth query and the second
  equality once five checks have passed.
\<close>

theorem verifyBinary_arm_simulator:
  fixes s :: state
  defines "binary \<equiv> shell_cache_js_bin_path (sh_obj s)"
    and "opts \<equiv> build_opts (sh_obj s)"
  shows "(verifyBinary dec os system s = (Inr (), s') \<longrightarrow>
            (\<exists>s5 s6 q5 q6.
               queryBuildConfiguration dec os system binary ''arm-simulator'' s5 = (Inr q5, s6) \<and>
               queryBuildConfiguration dec os system binary ''arm-simulator'' s6 = (Inr q6, s') \<and>
               py_eq_bool (py_and q5 (enable32 opts)) (enableSimulatorArm32 opts) \<and>
               py_eq_bool (py_and q6 (\<not> enable32 opts)) (enableSimulatorArm64 opts) \<and>
               (py_truthy q5 \<and> enable32 opts) = enableSimulatorArm32 opts \<and>
               (py_truthy q6 \<and> \<not> enable32 opts) = enableSimulatorArm64 opts)) \<and>
         (\<forall>s5 s6 q5.
            run_all (take 4 (checks dec os system binary)) s = (Inr (), s5) \<and>
            queryBuildConfiguration dec os system binary ''arm-simulator'' s5 = (Inr q5, s6) \<and>
            \<not> py_eq_bool (py_and q5 (enable32 opts)) (enableSimulatorArm32 opts) \<longrightarrow>
            verifyBinary dec os system s = (Inl AssertionError, s6)) \<and>
         (\<forall>s6 s7 q6.
            run_all (take 5 (checks dec os system binary)) s = (Inr (), s6) \<and>
            queryBuildConfiguration dec os system binary ''arm-simulator'' s6 = (Inr q6, s7) \<and>
            \<not> py_eq_bool (py_and q6 (\<not> enable32 opts)) (enableSimulatorArm64 opts) \<longrightarrow>
            verifyBinary dec os system s = (Inl AssertionError, s7))"
proof (intro conjI impI allI)
  assume "verifyBinary dec os system s = (Inr (), s')"
  then have "run_all (take 4 (checks dec os system binary) @
      [assert_simulator32 dec os system binary, assert_simulator64 dec os system binary]) s =
      (Inr (), s')"
    unfolding verifyBinary_checks binary_def by (simp add: checks_def)
  then obtain s4 where first: "run_all (take 4 (checks dec os system binary)) s = (Inr (), s4)"
    and rest: "run_all [assert_simulator32 dec os system binary,
      assert_simulator64 dec os system binary] s4 = (Inr (), s')"
    by (auto simp: run_all_append split: prod.splits sum.splits)
  from rest [unfolded run_all_Cons_ok run_all_Nil_ok]
  obtain s5 where a32: "assert_simulator32 dec os system binary s4 = (Inr (), s5)"
    and a64: "assert_simulator64 dec os system binary s5 = (Inr (), s')"
    by blast
  from a32 obtain q5 where
    q5: "queryBuildConfiguration dec os system binary ''arm-simulator'' s4 = (Inr q5, s5)"
    and e5: "py_eq_bool (py_and q5 (enable32 (build_opts (sh_obj s5))))
        (enableSimulatorArm32 (build_opts (sh_obj s5)))"
    by (auto simp: assert_simulator32_ok)
  from a64 obtain q6 where
    q6: "queryBuildConfiguration dec os system binary ''arm-simulator'' s5 = (Inr q6, s')"
    and e6: "py_eq_bool (py_and q6 (\<not> enable32 (build_opts (sh_obj s'))))
        (enableSimulatorArm64 (build_opts (sh_obj s')))"
    by (auto simp: assert_simulator64_ok)
  have "sh_obj s4 = sh_obj s"
    using first by (rule run_all_checks_sh)
  with queryBuildConfiguration_sh [OF q5] queryBuildConfiguration_sh [OF q6]
  have "sh_obj s5 = sh_obj s" and "sh_obj s' = sh_obj s"
    by simp_all
  with e5 e6 have e5': "py_eq_bool (py_and q5 (enable32 opts)) (enableSimulatorArm32 opts)"
    and e6': "py_eq_bool (py_and q6 (\<not> enable32 opts)) (enableSimulatorArm64 opts)"
    by (simp_all add: opts_def)
  with q5 q6 py_and_eq_bool [OF e5'] py_and_eq_bool [OF e6']
  show "\<exists>s5 s6 q5 q6.
      queryBuildConfiguration dec os system binary ''arm-simulator'' s5 = (Inr q5, s6) \<and>
      queryBuildConfiguration dec os system binary ''arm-simulator'' s6 = (Inr q6, s') \<and>
      py_eq_bool (py_and q5 (enable32 opts)) (enableSimulatorArm32 opts) \<and>
      py_eq_bool (py_and q6 (\<not> enable32 opts)) (enableSimulatorArm64 opts) \<and>
      (py_truthy q5 \<and> enable32 opts) = enableSimulatorArm32 opts \<and>
      (py_truthy q6 \<and> \<not> enable32 opts) = enableSimulatorArm64 opts"
    by blast
next
  fix s5 s6 q5
  assume a: "run_all (take 4 (checks dec os system binary)) s = (Inr (), s5) \<and>
      queryBuildConfiguration dec os system binary ''arm-simulator'' s5 = (Inr q5, s6) \<and>
      \<not> py_eq_bool (py_and q5 (enable32 opts)) (enableSimulatorArm32 opts)"
  then have "sh_obj s6 = sh_obj s"
    using queryBuildConfiguration_sh [of dec os system binary "''arm-simulator''" s5 "Inr q5" s6]
      run_all_checks_sh [of 4 dec os system binary s "Inr ()" s5]
    by simp
  with a have "assert_simulator32 dec os system binary s5 = (Inl AssertionError, s6)"
    by (intro assert_simulator32_fails [of _ _ _ _ _ q5]) (simp_all add: opts_def)
  with a have "run_all (take 4 (checks dec os system binary) @
      assert_simulator32 dec os system binary # [assert_simulator64 dec os system binary]) s =
      (Inl AssertionError, s6)"
    by (intro run_all_fails) simp_all
  then show "verifyBinary dec os system s = (Inl AssertionError, s6)"
    unfolding verifyBinary_checks binary_def by (simp add: checks_def)
next
  fix s6 s7 q6
  assume a: "run_all (take 5 (checks dec os system binary)) s = (Inr (), s6) \<and>
      queryBuildConfiguration dec os system binary ''arm-simulator'' s6 = (Inr q6, s7) \<and>
      \<not> py_eq_bool (py_and q6 (\<not> enable32 opts)) (enableSimulatorArm64 opts)"
  then have "sh_obj s7 = sh_obj s"
    using queryBuildConfiguration_sh [of dec os system binary "''arm-simulator''" s6 "Inr q6" s7]
      run_all_checks_sh [of 5 dec os system binary s "Inr ()" s6]
    by simp
  with a have "assert_simulator64 dec os system binary s6 = (Inl AssertionError, s7)"
    by (intro assert_simulator64_fails [of _ _ _ _ _ q6]) (simp_all add: opts_def)
  with a have "run_all (take 5 (checks dec os system binary) @
      assert_simulator64 dec os system binary # []) s = (Inl AssertionError, s7)"
    by (intro run_all_fails) simp_all
  then show "verifyBinary dec os system s = (Inl AssertionError, s7)"
    unfolding verifyBinary_checks binary_def by (simp add: checks_def)
qed


theorem verifyBinary_arm_simulator_witness:
  "(\<exists>s5 s6 q5 q6.
      queryBuildConfiguration no_decoder
        (os_shell '' ELF 64-bit LSB executable, x86-64'' (''false'' @ [CHR 0x0A])) ''Linux''
        ex_binary ''arm-simulator'' s5 = (Inr q5, s6) \<and>
      queryBuildConfiguration no_decoder
        (os_shell '' ELF 64-bit LSB executable, x86-64'' (''false'' @ [CHR 0x0A])) ''Linux''
        ex_binary ''arm-simulator'' s6 =
        (Inr q6, (ex_state ex_opts)\<lparr>invocations := verify_calls ''Linux'' ex_binary\<rparr>) \<and>
      (py_truthy q5 \<and> enable32 ex_opts) = enableSimulatorArm32 ex_opts \<and>
      (py_truthy q6 \<and> \<not> enable32 ex_opts) = enableSimulatorArm64 ex_opts) \<and>
   verifyBinary no_decoder
     (os_shell '' ELF 32-bit LSB executable, Intel 80386'' (''false'' @ [CHR 0x0A])) ''Linux''
     (ex_state (ex_opts\<lparr>enable32 := True, enableSimulatorArm32 := True\<rparr>)) =
     (Inl AssertionError,
      (ex_state (ex_opts\<lparr>enable32 := True, enableSimulatorArm32 := True\<rparr>))
        \<lparr>invocations := take 5 (verify_calls ''Linux'' ex_binary)\<rparr>) \<and>
   verifyBinary no_decoder
     (os_shell '' ELF 64-bit LSB executable, x86-64'' (''false'' @ [CHR 0x0A])) ''Linux''
     (ex_state (ex_opts\<lparr>enableSimulatorArm64 := True\<rparr>)) =
     (Inl AssertionError,
      (ex_state (ex_opts\<lparr>enableSimulatorArm64 := True\<rparr>))
        \<lparr>invocations := verify_calls ''Linux'' ex_binary\<rparr>)"
proof -
  let ?os64 = "os_shell '' ELF 64-bit LSB executable, x86-64'' (''false'' @ [CHR 0x0A])"
  let ?os32 = "os_shell '' ELF 32-bit LSB executable, Intel 80386'' (''false'' @ [CHR 0x0A])"
  let ?o32 = "ex_opts\<lparr>enable32 := True, enableSimulatorArm32 := True\<rparr>"
  let ?o64 = "ex_opts\<lparr>enableSimulatorArm64 := True\<rparr>"
  have bin: "shell_cache_js_bin_path (sh_obj (ex_state opts)) = ex_binary"
    and opts: "build_opts (sh_obj (ex_state opts)) = opts" for opts
    by (simp_all add: ex_state_def)
  have ok: "verifyBinary no_decoder ?os64 ''Linux'' (ex_state ex_opts) =
      (Inr (), (ex_state ex_opts)\<lparr>invocations := verify_calls ''Linux'' ex_binary\<rparr>)"
    by code_simp
  have four: "run_all (take 4 (checks no_decoder ?os32 ''Linux'' ex_binary)) (ex_state ?o32) =
      (Inr (), (ex_state ?o32)\<lparr>invocations := take 4 (verify_calls ''Linux'' ex_binary)\<rparr>)"
    by code_simp
  have q5: "queryBuildConfiguration no_decoder ?os32 ''Linux'' ex_binary ''arm-simulator''
      ((ex_state ?o32)\<lparr>invocations := take 4 (verify_calls ''Linux'' ex_binary)\<rparr>) =
      (Inr (JBool False),
       (ex_state ?o32)\<lparr>invocations := take 5 (verify_calls ''Linux'' ex_binary)\<rparr>)"
    by code_simp
  have ne5: "\<not> py_eq_bool (py_and (JBool False) (enable32 ?o32)) (enableSimulatorArm32 ?o32)"
    by (simp add: py_and_def)
  have five: "run_all (take 5 (checks no_decoder ?os64 ''Linux'' ex_binary)) (ex_state ?o64) =
      (Inr (), (ex_state ?o64)\<lparr>invocations := take 5 (verify_calls ''Linux'' ex_binary)\<rparr>)"
    by code_simp
  have q6: "queryBuildConfiguration no_decoder ?os64 ''Linux'' ex_binary ''arm-simulator''
      ((ex_state ?o64)\<lparr>invocations := take 5 (verify_calls ''Linux'' ex_binary)\<rparr>) =
      (Inr (JBool False), (ex_state ?o64)\<lparr>invocations := verify_calls ''Linux'' ex_binary\<rparr>)"
    by code_simp
  have ne6: "\<not> py_eq_bool (py_and (JBool False) (\<not> enable32 ?o64)) (enableSimulatorArm64 ?o64)"
    by (simp add: py_and_def ex_opts_def)
  note w1 = verifyBinary_arm_simulator [of no_decoder ?os64 "''Linux''" "ex_state ex_opts"
      "(ex_state ex_opts)\<lparr>invocations := verify_calls ''Linux'' ex_binary\<rparr>",
      unfolded bin opts, THEN conjunct1, rule_format, OF ok]
  note w2 = verifyBinary_arm_simulator [of no_decoder ?os32 "''Linux''" "ex_state ?o32",
      unfolded bin opts, THEN conjunct2, THEN conjunct1, rule_format, OF conjI [OF four conjI [OF q5 ne5]]]
  note w3 = verifyBinary_arm_simulator [of no_decoder ?os64 "''Linux''" "ex_state ?o64",
      unfolded bin opts, THEN conjunct2, THEN conjunct2, rule_format, OF conjI [OF five conjI [OF q6 ne6]]]
  from w1 w2 w3 show ?thesis
    by blast
qed

subsection \<open>Order of the checks\<close>

lemma assert_arch_mismatch:
  assumes "fst (archOfBinary os system binary s) = Inr a"
    and "a \<noteq> Some (if enable32 (build_opts (sh_obj s)) then ''32'' else ''64'')"
  shows "assert_arch os system binary s =
     (Inl AssertionError, s\<lparr>invocations := invocations s @ [file_invocation binary]\<rparr>)"
proof -
  from assms(1) archOfBinary_state [of os system binary s]
  have "archOfBinary os system binary s =
      (Inr a, s\<lparr>invocations := invocations s @ [file_invocation binary]\<rparr>)"
    by (cases "archOfBinary os system binary s") simp
  with assms(2) show ?thesis
    unfolding assert_arch_def by (simp add: py_assert_def py_raise_def)
qed

text \<open>
  C5. \<open>verifyBinary\<close> is the list \<open>checks\<close> (architecture, debug, more-deterministic,
  asan, arm-simulator for 32 bits, arm-simulator for 64 bits) run from left to right:
  as soon as one check raises, after the checks before it passed, \<open>verifyBinary\<close> ends
  with that exception in the state that check left. The processes it has started are
  always the first \<open>k\<close> of the six calls \<open>verify_calls\<close>, for some \<open>k\<close> from 1 to 6,
  and all six when it returns normally. When the architecture found is not the
  declared one, in particular when \<open>enable32\<close> is set and \<open>archOfBinary\<close> returns \<open>"64"\<close>,
  the result is \<open>AssertionError\<close> and the only process started is \<open>file\<close>: none of the
  configuration queries is made.
\<close>

theorem verifyBinary_fail_fast:
  fixes s :: state
  defines "binary \<equiv> shell_cache_js_bin_path (sh_obj s)"
    and "opts \<equiv> build_opts (sh_obj s)"
  shows "(\<forall>xs m ys e s1 s2.
            checks dec os system binary = xs @ m # ys \<and>
            run_all xs s = (Inr (), s1) \<and> m s1 = (Inl e, s2) \<longrightarrow>
            verifyBinary dec os system s = (Inl e, s2)) \<and>
         (\<exists>k. 1 \<le> k \<and> k \<le> 6 \<and>
            invocations (snd (verifyBinary dec os system s)) =
              invocations s @ take k (verify_calls system binary)) \<and>
         (fst (verifyBinary dec os system s) = Inr () \<longrightarrow>
            invocations (snd (verifyBinary dec os system s)) =
              invocations s @ verify_calls system binary) \<and>
         (\<forall>a. fst (archOfBinary os system binary s) = Inr a \<and>
            a \<noteq> Some (if enable32 opts then ''32'' else ''64'') \<longrightarrow>
            verifyBinary dec os system s =
              (Inl AssertionError, s\<lparr>invocations := invocations s @ [file_invocation binary]\<rparr>)) \<and>
         (enable32 opts \<and> fst (archOfBinary os system binary s) = Inr (Some ''64'') \<longrightarrow>
            verifyBinary dec os system s =
              (Inl AssertionError, s\<lparr>invocations := invocations s @ [file_invocation binary]\<rparr>))"
proof -
  have abort: "verifyBinary dec os system s = (Inl e, s2)"
    if "checks dec os system binary = xs @ m # ys" "run_all xs s = (Inr (), s1)"
      "m s1 = (Inl e, s2)" for xs m ys e s1 s2
    unfolding verifyBinary_checks binary_def [symmetric] that(1)
    using that(2,3) by (rule run_all_fails)
  from verifyBinary_state [of dec os system s] obtain k where k: "1 \<le> k" "k \<le> 6"
    and snd: "snd (verifyBinary dec os system s) =
      s\<lparr>invocations := invocations s @ take k (verify_calls system binary)\<rparr>"
    and full: "fst (verifyBinary dec os system s) = Inr () \<longrightarrow> k = 6"
    unfolding binary_def by blast
  have len: "length (verify_calls system binary) = 6"
    by (simp add: verify_calls_def)
  have calls: "invocations (snd (verifyBinary dec os system s)) =
      invocations s @ take k (verify_calls system binary)"
    using snd by simp
  have mismatch: "verifyBinary dec os system s =
      (Inl AssertionError, s\<lparr>invocations := invocations s @ [file_invocation binary]\<rparr>)"
    if "fst (archOfBinary os system binary s) = Inr a"
      "a \<noteq> Some (if enable32 opts then ''32'' else ''64'')" for a
  proof (rule abort [of "[]" "assert_arch os system binary" _ s])
    show "checks dec os system binary = [] @ assert_arch os system binary #
        tl (checks dec os system binary)"
      by (simp add: checks_def)
    show "run_all [] s = (Inr (), s)"
      by (simp add: py_return_def)
    show "assert_arch os system binary s =
        (Inl AssertionError, s\<lparr>invocations := invocations s @ [file_invocation binary]\<rparr>)"
      using that unfolding opts_def by (rule assert_arch_mismatch)
  qed
  have "\<exists>k. 1 \<le> k \<and> k \<le> 6 \<and> invocations (snd (verifyBinary dec os system s)) =
      invocations s @ take k (verify_calls system binary)"
    using k calls by blast
  moreover have "fst (verifyBinary dec os system s) = Inr () \<longrightarrow>
      invocations (snd (verifyBinary dec os system s)) =
        invocations s @ verify_calls system binary"
    using full calls len by auto
  moreover have "enable32 opts \<and> fst (archOfBinary os system binary s) = Inr (Some ''64'') \<longrightarrow>
      verifyBinary dec os system s =
        (Inl AssertionError, s\<lparr>invocations := invocations s @ [file_invocation binary]\<rparr>)"
    using mismatch [of "Some ''64''"] by simp
  ultimately show ?thesis
    using abort mismatch by blast
qed

theorem verifyBinary_fail_fast_witness:
  "verifyBinary no_decoder
     (os_shell '' ELF 64-bit LSB executable, x86-64'' (''false'' @ [CHR 0x0A])) ''Linux''
     (ex_state (ex_opts\<lparr>enable32 := True\<rparr>)) =
     (Inl AssertionError,
      (ex_state (ex_opts\<lparr>enable32 := True\<rparr>))\<lparr>invocations := [file_invocation ex_binary]\<rparr>) \<and>
   invocations (snd (verifyBinary no_decoder
     (os_shell '' ELF 64-bit LSB executable, x86-64'' (''false'' @ [CHR 0x0A])) ''Linux''
     (ex_state ex_opts))) = verify_calls ''Linux'' ex_binary"
proof -
  let ?os = "os_shell '' ELF 64-bit LSB executable, x86-64'' (''false'' @ [CHR 0x0A])"
  let ?o = "ex_opts\<lparr>enable32 := True\<rparr>"
  have bin: "shell_cache_js_bin_path (sh_obj (ex_state opts)) = ex_binary"
    and opts: "build_opts (sh_obj (ex_state opts)) = opts"
    and none: "invocations (ex_state opts) = []" for opts
    by (simp_all add: ex_state_def)
  have arch: "fst (archOfBinary ?os ''Linux'' ex_binary (ex_state ?o)) = Inr (Some ''64'')"
    by code_simp
  have e32: "enable32 ?o"
    by simp
  have ok: "fst (verifyBinary no_decoder ?os ''Linux'' (ex_state ex_opts)) = Inr ()"
    by code_simp
  have split: "checks no_decoder ?os ''Linux'' ex_binary =
      [] @ assert_arch ?os ''Linux'' ex_binary # tl (checks no_decoder ?os ''Linux'' ex_binary)"
    by (simp add: checks_def)
  have start: "run_all [] (ex_state ?o) = (Inr (), ex_state ?o)"
    by (simp add: py_return_def)
  have first: "assert_arch ?os ''Linux'' ex_binary (ex_state ?o) =
      (Inl AssertionError, (ex_state ?o)\<lparr>invocations := [file_invocation ex_binary]\<rparr>)"
    by code_simp
  have neq: "Some ''64'' \<noteq> Some (if enable32 ?o then ''32'' else ''64'')"
    by simp
  note w = verifyBinary_fail_fast [of no_decoder ?os "''Linux''" "ex_state ?o", unfolded bin opts none]
  note w1 = w [THEN conjunct1, rule_format, OF conjI [OF split conjI [OF start first]]]
  note w4 = w [THEN conjunct2, THEN conjunct2, THEN conjunct2, THEN conjunct1, rule_format,
      OF conjI [OF arch neq]]
  note w5 = w [THEN conjunct2, THEN conjunct2, THEN conjunct2, THEN conjunct2, rule_format,
      OF conjI [OF e32 arch]]
  note w3 = verifyBinary_fail_fast [of no_decoder ?os "''Linux''" "ex_state ex_opts",
      unfolded bin opts none, THEN conjunct2, THEN conjunct2, THEN conjunct1, rule_format, OF ok]
  from w1 w4 w5 w3 show ?thesis
    by simp
qed

subsection \<open>Timeouts\<close>

lemma subprocess_run_overruns:
  "overruns os s call \<Longrightarrow>
   subprocess_run os call s = (Inl TimeoutExpired, s\<lparr>invocations := invocations s @ [call]\<rparr>)"
  by (simp add: overruns_def subprocess_run_def split: proc.splits)

lemma testBinary_overruns:
  "overruns os s (test_invocation system p args v err) \<Longrightarrow>
   testBinary os system p args v err s =
     (Inl TimeoutExpired,
      s\<lparr>invocations := invocations s @ [test_invocation system p args v err]\<rparr>)"
  by (simp add: testBinary_def subprocess_run_overruns)

text \<open>
  C8, as the code has it. Each of \<open>testBinary\<close>, \<open>shellSupports\<close>,
  \<open>testJsShellOrXpcshell\<close>, \<open>queryBuildConfiguration\<close> and \<open>archOfBinary\<close> starts exactly
  one process. Every run of the shell, feature probe or configuration query or general
  test, has the one timeout of 999 seconds, which is hundreds of seconds and not tens;
  the timeout of 99 seconds is that of \<open>file\<close> in \<open>archOfBinary\<close> alone. When the process
  is still running at its timeout, the call ends in \<open>TimeoutExpired\<close>, and no second
  process is started.
\<close>

theorem timeouts_of_invocations:
  "invocations (snd (testBinary os system p args v err s)) =
     invocations s @ [test_invocation system p args v err] \<and>
   invocations (snd (shellSupports os system p args s)) =
     invocations s @ [test_invocation system p args False STDOUT] \<and>
   invocations (snd (testJsShellOrXpcshell os system p s)) =
     invocations s @ [test_invocation system p [''-e'', ''Components''] False STDOUT] \<and>
   invocations (snd (queryBuildConfiguration dec os system p parameter s)) =
     invocations s @ [query_invocation system p parameter] \<and>
   invocations (snd (archOfBinary os system p s)) = invocations s @ [file_invocation p] \<and>
   timeout (test_invocation system p args v err) = 999 \<and>
   timeout (query_invocation system p parameter) = 999 \<and>
   hundreds_of_seconds 999 \<and> \<not> tens_of_seconds 999 \<and>
   timeout (file_invocation p) = 99 \<and> tens_of_seconds 99 \<and>
   (overruns os s (test_invocation system p args v err) \<longrightarrow>
      fst (testBinary os system p args v err s) = Inl TimeoutExpired) \<and>
   (overruns os s (test_invocation system p args False STDOUT) \<longrightarrow>
      fst (shellSupports os system p args s) = Inl TimeoutExpired) \<and>
   (overruns os s (test_invocation system p [''-e'', ''Components''] False STDOUT) \<longrightarrow>
      fst (testJsShellOrXpcshell os system p s) = Inl TimeoutExpired) \<and>
   (overruns os s (query_invocation system p parameter) \<longrightarrow>
      fst (queryBuildConfiguration dec os system p parameter s) = Inl TimeoutExpired) \<and>
   (overruns os s (file_invocation p) \<longrightarrow>
      fst (archOfBinary os system p s) = Inl TimeoutExpired)"
proof -
  have one: "invocations (snd (testBinary os system p args v err s)) =
       invocations s @ [test_invocation system p args v err]"
    "invocations (snd (shellSupports os system p args s)) =
       invocations s @ [test_invocation system p args False STDOUT]"
    "invocations (snd (testJsShellOrXpcshell os system p s)) =
       invocations s @ [test_invocation system p [''-e'', ''Components''] False STDOUT]"
    "invocations (snd (queryBuildConfiguration dec os system p parameter s)) =
       invocations s @ [query_invocation system p parameter]"
    "invocations (snd (archOfBinary os system p s)) = invocations s @ [file_invocation p]"
    by (simp_all add: testBinary_state shellSupports_state testJsShellOrXpcshell_state
        queryBuildConfiguration_state archOfBinary_state)
  have tiers: "timeout (test_invocation system p args v err) = 999"
    "timeout (query_invocation system p parameter) = 999"
    "hundreds_of_seconds 999" "\<not> tens_of_seconds 999"
    "timeout (file_invocation p) = 99" "tens_of_seconds 99"
    by (simp_all add: test_invocation_def query_invocation_def file_invocation_def
        hundreds_of_seconds_def tens_of_seconds_def)
  have t1: "fst (testBinary os system p args v err s) = Inl TimeoutExpired"
    if "overruns os s (test_invocation system p args v err)"
    using testBinary_overruns [OF that] by simp
  have t2: "fst (shellSupports os system p args s) = Inl TimeoutExpired"
    if "overruns os s (test_invocation system p args False STDOUT)"
    unfolding shellSupports_def using testBinary_overruns [OF that] by simp
  have t3: "fst (testJsShellOrXpcshell os system p s) = Inl TimeoutExpired"
    if "overruns os s (test_invocation system p [''-e'', ''Components''] False STDOUT)"
    unfolding testJsShellOrXpcshell_def shellSupports_def
    using testBinary_overruns [OF that] by (simp add: py_bind_def)
  have t4: "fst (queryBuildConfiguration dec os system p parameter s) = Inl TimeoutExpired"
    if "overruns os s (query_invocation system p parameter)"
    unfolding queryBuildConfiguration_def
    using testBinary_overruns [OF that [unfolded query_invocation_def]] by simp
  have t5: "fst (archOfBinary os system p s) = Inl TimeoutExpired"
    if "overruns os s (file_invocation p)"
    unfolding archOfBinary_def using subprocess_run_overruns [OF that] by simp
  from one tiers t1 t2 t3 t4 t5 show ?thesis
    by blast
qed

theorem timeouts_of_invocations_witness:
  "fst (testBinary (os_slow 1000) ''Linux'' ex_binary [''-e'', ''42''] False STDOUT
          (ex_state ex_opts)) = Inl TimeoutExpired \<and>
   fst (shellSupports (os_slow 1000) ''Linux'' ex_binary [''-e'', ''42''] (ex_state ex_opts)) =
     Inl TimeoutExpired \<and>
   fst (testJsShellOrXpcshell (os_slow 1000) ''Linux'' ex_binary (ex_state ex_opts)) =
     Inl TimeoutExpired \<and>
   fst (queryBuildConfiguration no_decoder (os_slow 1000) ''Linux'' ex_binary ''debug''
          (ex_state ex_opts)) = Inl TimeoutExpired \<and>
   fst (archOfBinary (os_slow 1000) ''Linux'' ex_binary (ex_state ex_opts)) = Inl TimeoutExpired"
proof -
  have late: "overruns (os_slow 1000) s (test_invocation system p args v err)"
    "overruns (os_slow 1000) s (query_invocation system p parameter)"
    "overruns (os_slow 1000) s (file_invocation p)" for s system p args v err parameter
    by (simp_all add: overruns_def os_slow_def test_invocation_def query_invocation_def
        file_invocation_def)
  from late timeouts_of_invocations [of "os_slow 1000" "''Linux''" ex_binary "[''-e'', ''42'']"
      False STDOUT "ex_state ex_opts" no_decoder "''debug''"]
  show ?thesis
    by blast
qed

text \<open>
  C8, as the specification states it, fails: the feature probes of \<open>shellSupports\<close>
  and \<open>testJsShellOrXpcshell\<close> run under 999 seconds, which is not tens of seconds.
\<close>

theorem probe_timeout_counterexample:
  "map timeout (invocations (snd (shellSupports (os_const [] 0) ''Linux'' ex_binary
     [''-e'', ''42''] (ex_state ex_opts)))) = [999] \<and>
   map timeout (invocations (snd (testJsShellOrXpcshell (os_const [] 0) ''Linux'' ex_binary
     (ex_state ex_opts)))) = [999] \<and>
   \<not> tens_of_seconds 999"
  by (simp add: shellSupports_state testJsShellOrXpcshell_state test_invocation_def
      ex_state_def tens_of_seconds_def)

end
